theory Spec2Isabelle
  imports Main "HOL-Library.AList"
begin

section \<open>The signalling core of the meeting client: \<^verbatim>\<open>src/utils/webrtc.ts\<close>\<close>

text \<open>
  The class \<^verbatim>\<open>WebRTCManager\<close> is embedded as a record of its fields together with the
  objects it creates and talks to: the heap of \<^verbatim>\<open>RTCPeerConnection\<close> objects it has
  constructed, the realtime channel, the invocations of the three UI callbacks, and the
  errors that escape a handler. Every method and every registered listener is a function
  from manager state to manager state.

  Two conventions hold throughout. A listener runs to completion: the promises of the
  transport (\<^verbatim>\<open>createOffer\<close>, \<^verbatim>\<open>setLocalDescription\<close>, ...) are taken to resolve before the
  next event is looked at. The transport and the channel are the browser's and the
  backend's; the model records what the manager hands to them. The one refusal of the
  transport that it models is that of \<^verbatim>\<open>addIceCandidate\<close>, which rejects a candidate on a
  connection that is closed or has no remote description yet.
\<close>

subsection \<open>Media, descriptions, handshake messages\<close>

datatype track_kind = Audio | Video

record track =
  track_id :: nat
  kind :: track_kind
  enabled :: bool
  ended :: bool

type_synonym media_stream = "track list"

definition getTracks :: "media_stream \<Rightarrow> track list" where
  "getTracks ms = ms"

definition getVideoTracks :: "media_stream \<Rightarrow> track list" where
  "getVideoTracks ms = filter (\<lambda>t. kind t = Video) ms"

definition getAudioTracks :: "media_stream \<Rightarrow> track list" where
  "getAudioTracks ms = filter (\<lambda>t. kind t = Audio) ms"

datatype sdp_type = OfferSdp | AnswerSdp

text \<open>A session description is opaque to the manager: the model keeps its type and the
  ids of the tracks it announces.\<close>

record description =
  sdp_kind :: sdp_type
  sdp_media :: "nat list"

type_synonym candidate = string

text \<open>The three broadcast events with their payload \<^verbatim>\<open>{from, to, offer | answer | candidate}\<close>.\<close>

datatype signal =
    Offer string string description
  | Answer string string description
  | IceCandidate string string candidate

fun sig_from :: "signal \<Rightarrow> string" where
  "sig_from (Offer f t d) = f"
| "sig_from (Answer f t d) = f"
| "sig_from (IceCandidate f t c) = f"

fun sig_to :: "signal \<Rightarrow> string" where
  "sig_to (Offer f t d) = t"
| "sig_to (Answer f t d) = t"
| "sig_to (IceCandidate f t c) = t"

fun is_offer :: "signal \<Rightarrow> bool" where
  "is_offer (Offer f t d) = True"
| "is_offer (Answer f t d) = False"
| "is_offer (IceCandidate f t c) = False"

subsection \<open>The objects the manager holds\<close>

text \<open>An \<^verbatim>\<open>RTCPeerConnection\<close> as the manager uses it. \<open>remoteUserId\<close> is the value its
  \<^verbatim>\<open>ontrack\<close> and \<^verbatim>\<open>onicecandidate\<close> closures captured; \<open>senders\<close> are the local tracks
  given to \<^verbatim>\<open>addTrack\<close>, by id, since the tracks stay shared with the local stream.\<close>

record peer_connection =
  remoteUserId :: string
  senders :: "nat list"
  localDescription :: "description option"
  remoteDescription :: "description option"
  addedCandidates :: "candidate list"
  closed :: bool

record presence =
  p_userId :: string
  p_userName :: string
  online_at :: string

text \<open>\<^verbatim>\<open>channel.presenceState()\<close>: an object from presence key to a non-empty array of
  presences, of which the sync listener reads element 0.\<close>

type_synonym presence_state = "(string \<times> presence \<times> presence list) list"

record realtime_channel =
  topic :: string
  listeners :: "(string \<times> string) list"
  subscribed :: bool
  tracked :: "presence option"
  sent :: "signal list"
  removed :: bool

datatype notification =
    ParticipantJoined string string
  | ParticipantLeft string
  | StreamAdded string media_stream

datatype error = MediaError string | TypeError string | InvalidStateError string

text \<open>The fields of the class, in the order of the source; \<open>peers\<close> is the \<^verbatim>\<open>Map\<close> from
  user id to connection, kept in insertion order with the connection given by its address
  in \<open>connections\<close>. The three callback fields say whether the caller supplied the callback.
  The last three fields are the model's: every connection ever constructed, the callback
  invocations so far, and the errors that escaped a listener.\<close>

record manager =
  localStream :: "media_stream option"
  peers :: "(string \<times> nat) list"
  meetingId :: string
  userId :: string
  userName :: string
  channel :: "realtime_channel option"
  onParticipantJoined :: bool
  onParticipantLeft :: bool
  onStreamAdded :: bool
  connections :: "peer_connection list"
  notifications :: "notification list"
  unhandled :: "error list"

definition new_manager :: "string \<Rightarrow> string \<Rightarrow> string \<Rightarrow> bool \<Rightarrow> bool \<Rightarrow> bool \<Rightarrow> manager" where
  "new_manager mid uid uname cbJoined cbLeft cbStream =
     \<lparr> localStream = None, peers = [], meetingId = mid, userId = uid, userName = uname,
       channel = None, onParticipantJoined = cbJoined, onParticipantLeft = cbLeft,
       onStreamAdded = cbStream, connections = [], notifications = [], unhandled = [] \<rparr>"

subsection \<open>Callbacks and the channel\<close>

definition notify_joined :: "string \<Rightarrow> string \<Rightarrow> manager \<Rightarrow> manager" where
  "notify_joined uid uname s =
     (if onParticipantJoined s
      then s\<lparr>notifications := notifications s @ [ParticipantJoined uid uname]\<rparr> else s)"

definition notify_left :: "string \<Rightarrow> manager \<Rightarrow> manager" where
  "notify_left uid s =
     (if onParticipantLeft s
      then s\<lparr>notifications := notifications s @ [ParticipantLeft uid]\<rparr> else s)"

definition notify_stream :: "string \<Rightarrow> media_stream \<Rightarrow> manager \<Rightarrow> manager" where
  "notify_stream uid ms s =
     (if onStreamAdded s
      then s\<lparr>notifications := notifications s @ [StreamAdded uid ms]\<rparr> else s)"

text \<open>\<^verbatim>\<open>this.channel.send(...)\<close>; on an undefined channel the property access throws.\<close>

definition channel_send :: "signal \<Rightarrow> manager \<Rightarrow> manager" where
  "channel_send m s =
     (case channel s of
        None \<Rightarrow> s\<lparr>unhandled := unhandled s @ [TypeError ''channel is undefined'']\<rparr>
      | Some ch \<Rightarrow> s\<lparr>channel := Some (ch\<lparr>sent := sent ch @ [m]\<rparr>)\<rparr>)"

definition outbox :: "manager \<Rightarrow> signal list" where
  "outbox s = (case channel s of None \<Rightarrow> [] | Some ch \<Rightarrow> sent ch)"

subsection \<open>The transport\<close>

definition createOffer :: "peer_connection \<Rightarrow> description" where
  "createOffer pc = \<lparr> sdp_kind = OfferSdp, sdp_media = senders pc \<rparr>"

definition createAnswer :: "peer_connection \<Rightarrow> description" where
  "createAnswer pc = \<lparr> sdp_kind = AnswerSdp, sdp_media = senders pc \<rparr>"

definition setLocalDescription :: "description \<Rightarrow> peer_connection \<Rightarrow> peer_connection" where
  "setLocalDescription d pc = pc\<lparr>localDescription := Some d\<rparr>"

definition setRemoteDescription :: "description \<Rightarrow> peer_connection \<Rightarrow> peer_connection" where
  "setRemoteDescription d pc = pc\<lparr>remoteDescription := Some d\<rparr>"

text \<open>\<^verbatim>\<open>addIceCandidate\<close> settles to an error on a closed connection and on one whose
  remote description is still \<^verbatim>\<open>null\<close>; otherwise the candidate is applied.\<close>

definition addIceCandidate :: "candidate \<Rightarrow> peer_connection \<Rightarrow> error + peer_connection" where
  "addIceCandidate c pc =
     (if closed pc then Inl (InvalidStateError ''connection is closed'')
      else if remoteDescription pc = None
      then Inl (InvalidStateError ''remote description is null'')
      else Inr (pc\<lparr>addedCandidates := addedCandidates pc @ [c]\<rparr>))"

definition close :: "peer_connection \<Rightarrow> peer_connection" where
  "close pc = pc\<lparr>closed := True\<rparr>"

text \<open>The negotiation state of a link, read off the descriptions applied to it.\<close>

datatype negotiation_state = New | HaveLocalOffer | HaveRemoteOffer | Stable | Closed | Failed

definition signalingState :: "peer_connection \<Rightarrow> negotiation_state" where
  "signalingState pc =
     (if closed pc then Closed
      else case (localDescription pc, remoteDescription pc) of
             (None, None) \<Rightarrow> New
           | (Some l, None) \<Rightarrow> (if sdp_kind l = OfferSdp then HaveLocalOffer else Failed)
           | (None, Some r) \<Rightarrow> (if sdp_kind r = OfferSdp then HaveRemoteOffer else Failed)
           | (Some l, Some r) \<Rightarrow> (if sdp_kind l \<noteq> sdp_kind r then Stable else Failed))"

text \<open>A method call on the connection at address \<open>i\<close>.\<close>

definition on_connection :: "nat \<Rightarrow> (peer_connection \<Rightarrow> peer_connection) \<Rightarrow> manager \<Rightarrow> manager" where
  "on_connection i f s =
     (if i < length (connections s)
      then s\<lparr>connections := (connections s)[i := f (connections s ! i)]\<rparr> else s)"

subsection \<open>The methods\<close>

text \<open>\<^verbatim>\<open>initialize\<close>, given what \<^verbatim>\<open>getUserMedia\<close> settled to. The six listeners are
  registered on the new channel and the subscription is requested; presence is announced
  later, by the status callback.\<close>

definition initialize :: "error + media_stream \<Rightarrow> manager \<Rightarrow> (error + media_stream) \<times> manager" where
  "initialize media s =
     (case media of
        Inl e \<Rightarrow> (Inl e, s)
      | Inr ms \<Rightarrow>
          (Inr ms,
           s\<lparr> localStream := Some ms,
              channel := Some \<lparr> topic = ''meeting:'' @ meetingId s,
                                listeners = [(''presence'', ''sync''), (''presence'', ''join''),
                                             (''presence'', ''leave''), (''broadcast'', ''offer''),
                                             (''broadcast'', ''answer''),
                                             (''broadcast'', ''ice-candidate'')],
                                subscribed = True, tracked = None, sent = [],
                                removed = False \<rparr> \<rparr>))"

definition subscribe_status :: "string \<Rightarrow> string \<Rightarrow> manager \<Rightarrow> manager" where
  "subscribe_status status now s =
     (if status = ''SUBSCRIBED''
      then (case channel s of
              None \<Rightarrow> s\<lparr>unhandled := unhandled s @ [TypeError ''channel is undefined'']\<rparr>
            | Some ch \<Rightarrow>
                s\<lparr>channel := Some (ch\<lparr>tracked :=
                     Some \<lparr> p_userId = userId s, p_userName = userName s, online_at = now \<rparr>\<rparr>)\<rparr>)
      else s)"

definition createPeerConnection :: "string \<Rightarrow> bool \<Rightarrow> manager \<Rightarrow> manager" where
  "createPeerConnection remote isInitiator s =
     (let i = length (connections s);
          pc = \<lparr> remoteUserId = remote,
                 senders = (case localStream s of None \<Rightarrow> []
                            | Some ms \<Rightarrow> map track_id (getTracks ms)),
                 localDescription = None, remoteDescription = None,
                 addedCandidates = [], closed = False \<rparr>;
          s1 = s\<lparr>connections := connections s @ [pc], peers := AList.update remote i (peers s)\<rparr>
      in if isInitiator
         then (let offer = createOffer pc
               in channel_send (Offer (userId s) remote offer)
                    (on_connection i (setLocalDescription offer) s1))
         else s1)"

definition handleOffer :: "string \<Rightarrow> description \<Rightarrow> manager \<Rightarrow> manager" where
  "handleOffer remote offer s =
     (let s1 = (case map_of (peers s) remote of
                  None \<Rightarrow> createPeerConnection remote False s
                | Some i \<Rightarrow> s)
      in case map_of (peers s1) remote of
           None \<Rightarrow> s1
         | Some i \<Rightarrow>
             (if i < length (connections s1)
              then (let pc1 = setRemoteDescription offer (connections s1 ! i);
                        answer = createAnswer pc1
                    in channel_send (Answer (userId s) remote answer)
                         (s1\<lparr>connections := (connections s1)[i := setLocalDescription answer pc1]\<rparr>))
              else s1))"

definition handleAnswer :: "string \<Rightarrow> description \<Rightarrow> manager \<Rightarrow> manager" where
  "handleAnswer remote answer s =
     (case map_of (peers s) remote of
        None \<Rightarrow> s
      | Some i \<Rightarrow> on_connection i (setRemoteDescription answer) s)"

text \<open>\<^verbatim>\<open>handleIceCandidate\<close> awaits \<^verbatim>\<open>addIceCandidate\<close> without a handler for its rejection,
  and the listener does not await \<^verbatim>\<open>handleIceCandidate\<close>: a rejection escapes unhandled.\<close>

definition handleIceCandidate :: "string \<Rightarrow> candidate \<Rightarrow> manager \<Rightarrow> manager" where
  "handleIceCandidate remote c s =
     (case map_of (peers s) remote of
        None \<Rightarrow> s
      | Some i \<Rightarrow>
          (if i < length (connections s)
           then (case addIceCandidate c (connections s ! i) of
                   Inl e \<Rightarrow> s\<lparr>unhandled := unhandled s @ [e]\<rparr>
                 | Inr pc \<Rightarrow> s\<lparr>connections := (connections s)[i := pc]\<rparr>)
           else s))"

definition removePeer :: "string \<Rightarrow> manager \<Rightarrow> manager" where
  "removePeer uid s =
     (case map_of (peers s) uid of
        None \<Rightarrow> s
      | Some i \<Rightarrow> (on_connection i close s)\<lparr>peers := AList.delete uid (peers s)\<rparr>)"

definition toggleVideo :: "bool \<Rightarrow> manager \<Rightarrow> manager" where
  "toggleVideo en s =
     (case localStream s of
        None \<Rightarrow> s
      | Some ms \<Rightarrow>
          s\<lparr>localStream := Some (map (\<lambda>t. if kind t = Video then t\<lparr>enabled := en\<rparr> else t) ms)\<rparr>)"

definition toggleAudio :: "bool \<Rightarrow> manager \<Rightarrow> manager" where
  "toggleAudio en s =
     (case localStream s of
        None \<Rightarrow> s
      | Some ms \<Rightarrow>
          s\<lparr>localStream := Some (map (\<lambda>t. if kind t = Audio then t\<lparr>enabled := en\<rparr> else t) ms)\<rparr>)"

definition cleanup :: "manager \<Rightarrow> manager" where
  "cleanup s =
     (let s1 = s\<lparr>localStream := map_option (map (\<lambda>t. t\<lparr>ended := True\<rparr>)) (localStream s)\<rparr>;
          s2 = fold (\<lambda>(uid, i). on_connection i close) (peers s1) s1;
          s3 = s2\<lparr>peers := []\<rparr>
      in case channel s3 of
           None \<Rightarrow> s3
         | Some ch \<Rightarrow> s3\<lparr>channel := Some (ch\<lparr>tracked := None, subscribed := False, removed := True\<rparr>)\<rparr>)"

subsection \<open>The listeners\<close>

definition presence_sync :: "presence_state \<Rightarrow> manager \<Rightarrow> manager" where
  "presence_sync st s =
     fold (\<lambda>(key, p, rest) s'.
             if p_userId p \<noteq> userId s' \<and> map_of (peers s') (p_userId p) = None
             then notify_joined (p_userId p) (p_userName p) s' else s')
          st s"

definition presence_join :: "presence list \<Rightarrow> manager \<Rightarrow> manager" where
  "presence_join newPresences s =
     fold (\<lambda>p s'. if p_userId p \<noteq> userId s' then createPeerConnection (p_userId p) True s' else s')
          newPresences s"

definition presence_leave :: "presence list \<Rightarrow> manager \<Rightarrow> manager" where
  "presence_leave leftPresences s =
     fold (\<lambda>p s'. notify_left (p_userId p) (removePeer (p_userId p) s')) leftPresences s"

fun on_broadcast :: "signal \<Rightarrow> manager \<Rightarrow> manager" where
  "on_broadcast (Offer f t offer) s = (if t = userId s then handleOffer f offer s else s)"
| "on_broadcast (Answer f t answer) s = (if t = userId s then handleAnswer f answer s else s)"
| "on_broadcast (IceCandidate f t c) s = (if t = userId s then handleIceCandidate f c s else s)"

text \<open>The two closures that \<^verbatim>\<open>createPeerConnection\<close> installs on the connection at
  address \<open>i\<close>: \<^verbatim>\<open>ontrack\<close> with the event's streams, \<^verbatim>\<open>onicecandidate\<close> with the event's
  candidate (\<^verbatim>\<open>null\<close> at the end of gathering).\<close>

definition ontrack :: "nat \<Rightarrow> media_stream list \<Rightarrow> manager \<Rightarrow> manager" where
  "ontrack i streams s =
     (if i < length (connections s)
      then (case streams of
              [] \<Rightarrow> s
            | ms # rest \<Rightarrow> notify_stream (remoteUserId (connections s ! i)) ms s)
      else s)"

definition onicecandidate :: "nat \<Rightarrow> candidate option \<Rightarrow> manager \<Rightarrow> manager" where
  "onicecandidate i cand s =
     (if i < length (connections s)
      then (case cand of
              None \<Rightarrow> s
            | Some c \<Rightarrow> channel_send (IceCandidate (userId s) (remoteUserId (connections s ! i)) c) s)
      else s)"

text \<open>The connections that are open towards a remote user, by address.\<close>

definition live_links :: "string \<Rightarrow> manager \<Rightarrow> nat list" where
  "live_links uid s =
     filter (\<lambda>i. remoteUserId (connections s ! i) = uid \<and> \<not> closed (connections s ! i))
            [0 ..< length (connections s)]"

subsection \<open>Events of a session\<close>

text \<open>Everything that can happen to a manager once \<^verbatim>\<open>initialize\<close> has registered the
  listeners: the channel's presence and broadcast events, the subscription status, the
  events of a connection, and the calls of the meeting page.\<close>

datatype event =
    PresenceSync presence_state
  | PresenceJoin "presence list"
  | PresenceLeave "presence list"
  | Broadcast signal
  | SubscribeStatus string string
  | TrackEvent nat "media_stream list"
  | IceCandidateEvent nat "candidate option"
  | ToggleVideo bool
  | ToggleAudio bool
  | Cleanup

fun step :: "event \<Rightarrow> manager \<Rightarrow> manager" where
  "step (PresenceSync st) s = presence_sync st s"
| "step (PresenceJoin ps) s = presence_join ps s"
| "step (PresenceLeave ps) s = presence_leave ps s"
| "step (Broadcast m) s = on_broadcast m s"
| "step (SubscribeStatus status now) s = subscribe_status status now s"
| "step (TrackEvent i streams) s = ontrack i streams s"
| "step (IceCandidateEvent i c) s = onicecandidate i c s"
| "step (ToggleVideo en) s = toggleVideo en s"
| "step (ToggleAudio en) s = toggleAudio en s"
| "step Cleanup s = cleanup s"

definition run :: "event list \<Rightarrow> manager \<Rightarrow> manager" where
  "run evs s = fold step evs s"

text \<open>What the peers map promises about the heap: one entry per user id, no connection
  shared by two entries, and every entry at an open connection made for its user.\<close>

definition links_wf :: "manager \<Rightarrow> bool" where
  "links_wf s =
     (distinct (map fst (peers s)) \<and> distinct (map snd (peers s)) \<and>
      list_all (\<lambda>(u, i). i < length (connections s) \<and>
                          remoteUserId (connections s ! i) = u \<and>
                          \<not> closed (connections s ! i)) (peers s))"

text \<open>The same, on the two fields alone.\<close>

definition wf_links :: "(string \<times> nat) list \<Rightarrow> peer_connection list \<Rightarrow> bool" where
  "wf_links ps cs =
     (distinct (map fst ps) \<and> distinct (map snd ps) \<and>
      (\<forall>(u, i) \<in> set ps. i < length cs \<and> remoteUserId (cs ! i) = u \<and> \<not> closed (cs ! i)))"

subsection \<open>Sessions used as concrete inputs\<close>

definition cam :: "nat \<Rightarrow> media_stream" where
  "cam n = [\<lparr>track_id = n, kind = Audio, enabled = True, ended = False\<rparr>,
            \<lparr>track_id = Suc n, kind = Video, enabled = True, ended = False\<rparr>]"

definition present :: "string \<Rightarrow> presence" where
  "present u = \<lparr>p_userId = u, p_userName = u, online_at = ''2025-11-07T14:07:20.000Z''\<rparr>"

text \<open>A manager after a successful \<^verbatim>\<open>initialize\<close> and the \<^verbatim>\<open>SUBSCRIBED\<close> status.\<close>

definition joined :: "string \<Rightarrow> string \<Rightarrow> media_stream \<Rightarrow> manager" where
  "joined mid u ms =
     subscribe_status ''SUBSCRIBED'' ''2025-11-07T14:07:20.000Z''
       (snd (initialize (Inr ms) (new_manager mid u u True True True)))"

definition alice :: manager where
  "alice = joined ''m1'' ''alice'' (cam 0)"

definition bob :: manager where
  "bob = joined ''m1'' ''bob'' (cam 2)"

definition offer_of_bob :: description where
  "offer_of_bob = \<lparr>sdp_kind = OfferSdp, sdp_media = [2, 3]\<rparr>"

definition offer_of_alice :: description where
  "offer_of_alice = \<lparr>sdp_kind = OfferSdp, sdp_media = [0, 1]\<rparr>"

text \<open>\<open>alice\<close> after the join event of \<open>bob\<close>: one initiator link, its offer sent.\<close>

definition alice_calling_bob :: manager where
  "alice_calling_bob = presence_join [present ''bob''] alice"

text \<open>The same session once the answer of \<open>bob\<close> has been applied.\<close>

definition answer_of_bob :: description where
  "answer_of_bob = \<lparr>sdp_kind = AnswerSdp, sdp_media = [2, 3]\<rparr>"

definition alice_answered_by_bob :: manager where
  "alice_answered_by_bob = on_broadcast (Answer ''bob'' ''alice'' answer_of_bob) alice_calling_bob"

definition snapshot_alice_bob :: presence_state where
  "snapshot_alice_bob = [(''alice'', present ''alice'', []), (''bob'', present ''bob'', [])]"

text \<open>Two participants \<open>a\<close> and \<open>b\<close> enter the meeting, \<open>a\<close> first. Each sees its own join
  and the snapshots; \<open>b\<close> finds \<open>a\<close> in its first snapshot, \<open>a\<close> gets the join event of \<open>b\<close>.
  Then the channel delivers what \<open>a\<close> has sent to \<open>b\<close>, and what \<open>b\<close> has sent to \<open>a\<close>.\<close>

definition join_in_order ::
  "string \<Rightarrow> string \<Rightarrow> string \<Rightarrow> media_stream \<Rightarrow> media_stream \<Rightarrow> manager \<times> manager" where
  "join_in_order mid a b camA camB =
     (let only_a = [(a, present a, [])];
          both = [(a, present a, []), (b, present b, [])];
          A1 = presence_sync only_a (presence_join [present a] (joined mid a camA));
          B1 = presence_sync both (presence_join [present b] (joined mid b camB));
          A2 = presence_sync both (presence_join [present b] A1);
          B2 = fold on_broadcast (outbox A2) B1;
          A3 = fold on_broadcast (outbox B2) A2
      in (A3, B2))"

section \<open>Properties\<close>

subsection \<open>Auxiliary facts\<close>

lemmas session_defs =
  cam_def alice_def bob_def joined_def present_def offer_of_bob_def offer_of_alice_def
  alice_calling_bob_def snapshot_alice_bob_def answer_of_bob_def alice_answered_by_bob_def
  new_manager_def
  initialize_def subscribe_status_def createPeerConnection_def handleOffer_def
  handleAnswer_def handleIceCandidate_def removePeer_def cleanup_def presence_sync_def
  presence_join_def presence_leave_def on_connection_def channel_send_def createOffer_def
  createAnswer_def setLocalDescription_def setRemoteDescription_def addIceCandidate_def
  close_def notify_joined_def notify_left_def notify_stream_def getTracks_def outbox_def

lemma present_simps: "p_userId (present u) = u" "p_userName (present u) = u"
  by (simp_all add: present_def)

lemma close_all_fields:
  "peers (fold (\<lambda>(uid, i). on_connection i close) ps s) = peers s"
  "localStream (fold (\<lambda>(uid, i). on_connection i close) ps s) = localStream s"
  "channel (fold (\<lambda>(uid, i). on_connection i close) ps s) = channel s"
  by (induction ps arbitrary: s) (auto simp: on_connection_def)

lemma peers_cleanup: "peers (cleanup s) = []"
  by (simp add: cleanup_def Let_def split: option.splits)

lemma removePeer_twice: "removePeer u (removePeer u s) = removePeer u s"
  by (simp add: removePeer_def on_connection_def delete_conv' split: option.splits)

lemma cleanup_twice: "cleanup (cleanup s) = cleanup s"
  by (simp add: cleanup_def Let_def close_all_fields option.map_comp comp_def
      split: option.splits)

lemma other_kind_kept:
  "filter (\<lambda>t. kind t = k') (map (\<lambda>t. if kind t = k then t\<lparr>enabled := en\<rparr> else t) ms) =
   (if k' = k then map (\<lambda>t. t\<lparr>enabled := en\<rparr>) (filter (\<lambda>t. kind t = k) ms)
    else filter (\<lambda>t. kind t = k') ms)"
  by (induction ms) auto

lemma flags_erased:
  "map (\<lambda>t. t\<lparr>enabled := x\<rparr>) (map (\<lambda>t. if kind t = k then t\<lparr>enabled := en\<rparr> else t) ms) =
   map (\<lambda>t. t\<lparr>enabled := x\<rparr>) ms"
  by (induction ms) auto

lemma toggleVideo_frame:
  "toggleVideo en s = s\<lparr>localStream := localStream (toggleVideo en s)\<rparr>"
  "map_option (map (\<lambda>t. t\<lparr>enabled := x\<rparr>)) (localStream (toggleVideo en s)) =
     map_option (map (\<lambda>t. t\<lparr>enabled := x\<rparr>)) (localStream s)"
  "map_option getAudioTracks (localStream (toggleVideo en s)) =
     map_option getAudioTracks (localStream s)"
  "map_option getVideoTracks (localStream (toggleVideo en s)) =
     map_option (\<lambda>ms. map (\<lambda>t. t\<lparr>enabled := en\<rparr>) (getVideoTracks ms)) (localStream s)"
  by (simp_all add: toggleVideo_def getAudioTracks_def getVideoTracks_def other_kind_kept
      flags_erased split: option.splits)

lemma toggleAudio_frame:
  "toggleAudio en s = s\<lparr>localStream := localStream (toggleAudio en s)\<rparr>"
  "map_option (map (\<lambda>t. t\<lparr>enabled := x\<rparr>)) (localStream (toggleAudio en s)) =
     map_option (map (\<lambda>t. t\<lparr>enabled := x\<rparr>)) (localStream s)"
  "map_option getVideoTracks (localStream (toggleAudio en s)) =
     map_option getVideoTracks (localStream s)"
  "map_option getAudioTracks (localStream (toggleAudio en s)) =
     map_option (\<lambda>ms. map (\<lambda>t. t\<lparr>enabled := en\<rparr>) (getAudioTracks ms)) (localStream s)"
  by (simp_all add: toggleAudio_def getAudioTracks_def getVideoTracks_def other_kind_kept
      flags_erased split: option.splits)

subsection \<open>Addressing of handshake messages\<close>

text \<open>
  C6. Each of the three broadcast listeners acts on a message only when its \<open>to\<close> field
  is the local user id, and then hands it to the handler of its kind; a message addressed to
  anyone else leaves the whole state as it was: no link, no message sent, no error.
\<close>

theorem broadcast_only_when_addressed_to_self:
  "(sig_to m \<noteq> userId s \<longrightarrow> on_broadcast m s = s) \<and>
   (sig_to m = userId s \<longrightarrow>
      on_broadcast m s =
        (case m of
           Offer f t d \<Rightarrow> handleOffer f d s
         | Answer f t d \<Rightarrow> handleAnswer f d s
         | IceCandidate f t c \<Rightarrow> handleIceCandidate f c s))"
  by (cases m) simp_all

theorem broadcast_only_when_addressed_to_self_witness:
  "sig_to (Offer ''bob'' ''carol'' offer_of_bob) \<noteq> userId alice \<and>
   on_broadcast (Offer ''bob'' ''carol'' offer_of_bob) alice = alice \<and>
   sig_to (Offer ''bob'' ''alice'' offer_of_bob) = userId alice \<and>
   on_broadcast (Offer ''bob'' ''alice'' offer_of_bob) alice = handleOffer ''bob'' offer_of_bob alice"
  using broadcast_only_when_addressed_to_self [of "Offer ''bob'' ''carol'' offer_of_bob" alice]
    broadcast_only_when_addressed_to_self [of "Offer ''bob'' ''alice'' offer_of_bob" alice]
  by (simp add: alice_def joined_def subscribe_status_def initialize_def new_manager_def)

subsection \<open>Failure of media acquisition\<close>

text \<open>
  C8. When \<^verbatim>\<open>getUserMedia\<close> fails, \<^verbatim>\<open>initialize\<close> hands that error to its caller and
  has done nothing else: the state is the one it started from, so a new manager still has
  no channel (none created, none subscribed, no presence tracked) and has sent nothing.
\<close>

theorem initialize_media_failure:
  "initialize (Inl e) s = (Inl e, s) \<and>
   channel (snd (initialize (Inl e) (new_manager mid uid uname j l st))) = None \<and>
   outbox (snd (initialize (Inl e) (new_manager mid uid uname j l st))) = [] \<and>
   unhandled (snd (initialize (Inl e) (new_manager mid uid uname j l st))) = []"
  by (simp add: initialize_def new_manager_def outbox_def)

subsection \<open>Teardown\<close>

text \<open>
  C7. Closing is idempotent at each level: closing a closed connection, removing a peer
  that was just removed, and running \<^verbatim>\<open>cleanup\<close> a second time each give the state that
  the first call left.
\<close>

theorem teardown_idempotent:
  "close (close pc) = close pc \<and>
   removePeer u (removePeer u s) = removePeer u s \<and>
   cleanup (cleanup s) = cleanup s"
  by (simp add: close_def removePeer_twice cleanup_twice)

subsection \<open>Muting\<close>

text \<open>
  C9. \<^verbatim>\<open>toggleVideo\<close> and \<^verbatim>\<open>toggleAudio\<close> change nothing but the local stream, and in it
  nothing but the \<open>enabled\<close> flag of the tracks of their kind, which all get the requested
  value: the peers map, every connection, the channel and what was sent on it, the
  callback log and the error log are the same as before, and so are the tracks of the
  other kind.
\<close>

theorem toggle_is_track_level_only:
  "toggleVideo en s = s\<lparr>localStream := localStream (toggleVideo en s)\<rparr> \<and>
   toggleAudio en s = s\<lparr>localStream := localStream (toggleAudio en s)\<rparr> \<and>
   peers (toggleVideo en s) = peers s \<and> peers (toggleAudio en s) = peers s \<and>
   connections (toggleVideo en s) = connections s \<and>
   connections (toggleAudio en s) = connections s \<and>
   map signalingState (connections (toggleVideo en s)) = map signalingState (connections s) \<and>
   map signalingState (connections (toggleAudio en s)) = map signalingState (connections s) \<and>
   outbox (toggleVideo en s) = outbox s \<and> outbox (toggleAudio en s) = outbox s \<and>
   map_option (map (\<lambda>t. t\<lparr>enabled := x\<rparr>)) (localStream (toggleVideo en s)) =
     map_option (map (\<lambda>t. t\<lparr>enabled := x\<rparr>)) (localStream s) \<and>
   map_option (map (\<lambda>t. t\<lparr>enabled := x\<rparr>)) (localStream (toggleAudio en s)) =
     map_option (map (\<lambda>t. t\<lparr>enabled := x\<rparr>)) (localStream s) \<and>
   map_option getAudioTracks (localStream (toggleVideo en s)) =
     map_option getAudioTracks (localStream s) \<and>
   map_option getVideoTracks (localStream (toggleAudio en s)) =
     map_option getVideoTracks (localStream s) \<and>
   map_option getVideoTracks (localStream (toggleVideo en s)) =
     map_option (\<lambda>ms. map (\<lambda>t. t\<lparr>enabled := en\<rparr>) (getVideoTracks ms)) (localStream s) \<and>
   map_option getAudioTracks (localStream (toggleAudio en s)) =
     map_option (\<lambda>ms. map (\<lambda>t. t\<lparr>enabled := en\<rparr>) (getAudioTracks ms)) (localStream s)"
proof -
  have v: "peers (toggleVideo en s) = peers s" "connections (toggleVideo en s) = connections s"
    "outbox (toggleVideo en s) = outbox s"
    by (simp_all add: toggleVideo_def outbox_def split: option.splits)
  have a: "peers (toggleAudio en s) = peers s" "connections (toggleAudio en s) = connections s"
    "outbox (toggleAudio en s) = outbox s"
    by (simp_all add: toggleAudio_def outbox_def split: option.splits)
  show ?thesis
    by (intro conjI) (simp_all only: v a, (rule toggleVideo_frame toggleAudio_frame)+)
qed

subsection \<open>Messages from a sender without a link\<close>

text \<open>
  C10. When the peers map has no entry for the sender, an answer or an ICE candidate from
  that sender, also when it comes through the broadcast listener addressed to self,
  leaves the whole state unchanged, error log included. An offer from the same sender
  does create an entry, at the address of a new connection.
\<close>

theorem unknown_sender_answer_candidate_ignored:
  "map_of (peers s) u = None \<Longrightarrow>
     handleAnswer u a s = s \<and> handleIceCandidate u c s = s \<and>
     on_broadcast (Answer u (userId s) a) s = s \<and>
     on_broadcast (IceCandidate u (userId s) c) s = s \<and>
     map_of (peers (handleOffer u d s)) u = Some (length (connections s))"
  by (simp add: handleAnswer_def handleIceCandidate_def handleOffer_def
      createPeerConnection_def Let_def channel_send_def update_conv' split: option.splits)

theorem unknown_sender_answer_candidate_ignored_witness:
  "map_of (peers alice) ''bob'' = None \<and>
   handleAnswer ''bob'' offer_of_bob alice = alice \<and>
   handleIceCandidate ''bob'' ''candidate:1'' alice = alice \<and>
   on_broadcast (Answer ''bob'' (userId alice) offer_of_bob) alice = alice \<and>
   on_broadcast (IceCandidate ''bob'' (userId alice) ''candidate:1'') alice = alice \<and>
   map_of (peers (handleOffer ''bob'' offer_of_bob alice)) ''bob'' = Some 0"
proof -
  have none: "map_of (peers alice) ''bob'' = None" and empty: "connections alice = []"
    by (simp_all add: alice_def joined_def subscribe_status_def initialize_def new_manager_def)
  show ?thesis
    using unknown_sender_answer_candidate_ignored
      [OF none, of offer_of_bob "''candidate:1''" offer_of_bob]
    by (simp add: none empty)
qed

subsection \<open>The peers map in every reachable state\<close>

text \<open>Whatever events arrive after \<^verbatim>\<open>initialize\<close>, the peers map stays well formed. The
  map says nothing about connections it no longer refers to.\<close>

lemma links_wf_iff: "links_wf s = wf_links (peers s) (connections s)"
  by (simp add: links_wf_def wf_links_def list_all_iff)

lemma update_mem:
  "(u, j) \<in> set (AList.update k v al) \<Longrightarrow> (u = k \<and> j = v) \<or> (u, j) \<in> set al"
  by (induction al) (auto split: if_splits)

lemma distinct_snd_update:
  "distinct (map snd al) \<Longrightarrow> v \<notin> snd ` set al \<Longrightarrow> distinct (map snd (AList.update k v al))"
proof (induction al)
  case Nil
  then show ?case by simp
next
  case (Cons p al)
  have "snd ` set (AList.update k v al) \<subseteq> insert v (snd ` set al)"
    using update_mem [of _ _ k v al] by force
  with Cons show ?case by (auto simp: image_iff)
qed

lemma wf_new:
  assumes "wf_links ps cs" "remoteUserId pc = u" "\<not> closed pc"
  shows "wf_links (AList.update u (length cs) ps) (cs @ [pc])"
proof -
  from assms(1) have d1: "distinct (map fst ps)" and d2: "distinct (map snd ps)"
    and b: "\<And>v i. (v, i) \<in> set ps \<Longrightarrow> i < length cs \<and> remoteUserId (cs ! i) = v \<and> \<not> closed (cs ! i)"
    by (auto simp: wf_links_def)
  have fresh: "length cs \<notin> snd ` set ps"
    using b by force
  have "\<And>v i. (v, i) \<in> set (AList.update u (length cs) ps) \<Longrightarrow>
      i < length (cs @ [pc]) \<and> remoteUserId ((cs @ [pc]) ! i) = v \<and> \<not> closed ((cs @ [pc]) ! i)"
    using update_mem [of _ _ u "length cs" ps] b assms(2,3)
    by (fastforce simp: nth_append)
  then show ?thesis
    unfolding wf_links_def
    using distinct_update [OF d1] distinct_snd_update [OF d2 fresh] by blast
qed

lemma wf_modify:
  assumes "wf_links ps cs" "remoteUserId (f (cs ! i)) = remoteUserId (cs ! i)"
    "closed (f (cs ! i)) = closed (cs ! i)"
  shows "wf_links ps (cs[i := f (cs ! i)])"
proof -
  have "remoteUserId (cs[i := f (cs ! i)] ! j) = remoteUserId (cs ! j) \<and>
        closed (cs[i := f (cs ! i)] ! j) = closed (cs ! j)" if "j < length cs" for j
    using that assms(2,3) by (cases "j = i") simp_all
  with assms(1) show ?thesis
    unfolding wf_links_def by fastforce
qed

lemma wf_remove:
  assumes "wf_links ps cs" "map_of ps u = Some i"
  shows "wf_links (AList.delete u ps) (cs[i := close (cs ! i)])"
proof -
  from assms(1) have d1: "distinct (map fst ps)" and d2: "distinct (map snd ps)"
    and b: "\<And>v j. (v, j) \<in> set ps \<Longrightarrow> j < length cs \<and> remoteUserId (cs ! j) = v \<and> \<not> closed (cs ! j)"
    by (auto simp: wf_links_def)
  have ui: "(u, i) \<in> set ps" using assms(2) by (rule map_of_SomeD)
  have other: "j \<noteq> i" if "(v, j) \<in> set (AList.delete u ps)" for v j
  proof
    assume "j = i"
    with that have "(v, i) \<in> set ps" "v \<noteq> u" by (auto simp: AList.delete_eq)
    with ui d2 show False
      by (force simp: distinct_map inj_on_def)
  qed
  have "distinct (map snd (AList.delete u ps))"
    using d2 by (simp add: AList.delete_eq distinct_map_filter)
  moreover have "j < length (cs[i := close (cs ! i)]) \<and>
      remoteUserId (cs[i := close (cs ! i)] ! j) = v \<and> \<not> closed (cs[i := close (cs ! i)] ! j)"
    if "(v, j) \<in> set (AList.delete u ps)" for v j
  proof -
    from that have "(v, j) \<in> set ps" by (auto simp: AList.delete_eq)
    with b [of v j] other [OF that] show ?thesis by simp
  qed
  ultimately show ?thesis
    unfolding wf_links_def using distinct_delete [OF d1] by blast
qed

lemma wf_createPeerConnection:
  assumes "links_wf s"
  shows "links_wf (createPeerConnection u ini s)"
proof -
  let ?pc = "\<lparr> remoteUserId = u,
                senders = (case localStream s of None \<Rightarrow> [] | Some ms \<Rightarrow> map track_id (getTracks ms)),
                localDescription = None, remoteDescription = None,
                addedCandidates = [], closed = False \<rparr>"
  let ?ps = "AList.update u (length (connections s)) (peers s)"
  have new: "wf_links ?ps (connections s @ [?pc])"
    using assms by (intro wf_new) (simp_all add: links_wf_iff)
  have "wf_links ?ps ((connections s @ [?pc])[length (connections s) :=
           setLocalDescription d ((connections s @ [?pc]) ! length (connections s))])" for d
    by (rule wf_modify [OF new]) (simp_all add: setLocalDescription_def)
  with new show ?thesis
    by (simp add: links_wf_iff createPeerConnection_def Let_def on_connection_def
        channel_send_def split: option.splits)
qed

lemma links_wf_same:
  "peers t = peers s \<Longrightarrow> connections t = connections s \<Longrightarrow> links_wf t = links_wf s"
  by (simp add: links_wf_def)

lemma wf_channel_send: "links_wf (channel_send m s) = links_wf s"
  by (rule links_wf_same) (simp_all add: channel_send_def split: option.splits)

lemma wf_notify:
  "links_wf (notify_joined u n s) = links_wf s"
  "links_wf (notify_left u s) = links_wf s"
  "links_wf (notify_stream u ms s) = links_wf s"
  by (rule links_wf_same; simp add: notify_joined_def notify_left_def notify_stream_def)+

lemma wf_on_connection:
  assumes "links_wf s" "\<And>pc. remoteUserId (f pc) = remoteUserId pc" "\<And>pc. closed (f pc) = closed pc"
  shows "links_wf (on_connection i f s)"
  using wf_modify [of "peers s" "connections s" f i] assms
  by (simp add: links_wf_iff on_connection_def)

lemma wf_handleOffer:
  assumes "links_wf s"
  shows "links_wf (handleOffer u offer s)"
proof -
  define s1 where "s1 = (case map_of (peers s) u of
                          None \<Rightarrow> createPeerConnection u False s | Some i \<Rightarrow> s)"
  have s1: "links_wf s1"
    using assms wf_createPeerConnection [OF assms] by (simp add: s1_def split: option.splits)
  have "links_wf (s1\<lparr>connections := (connections s1)
          [i := setLocalDescription a (setRemoteDescription offer (connections s1 ! i))]\<rparr>)" for i a
    using wf_modify [of "peers s1" "connections s1"
        "\<lambda>pc. setLocalDescription a (setRemoteDescription offer pc)" i] s1
    by (simp add: links_wf_iff setLocalDescription_def setRemoteDescription_def)
  with s1 show ?thesis
    by (simp add: handleOffer_def Let_def s1_def [symmetric] wf_channel_send
        split: option.splits)
qed

lemma wf_handleAnswer: "links_wf s \<Longrightarrow> links_wf (handleAnswer u a s)"
  by (simp add: handleAnswer_def wf_on_connection setRemoteDescription_def split: option.splits)

lemma wf_handleIceCandidate:
  assumes "links_wf s"
  shows "links_wf (handleIceCandidate u c s)"
proof -
  have "links_wf (s\<lparr>connections := (connections s)
          [i := (connections s ! i)\<lparr>addedCandidates := addedCandidates (connections s ! i) @ [c]\<rparr>]\<rparr>)"
    for i
    using wf_modify [of "peers s" "connections s"
        "\<lambda>pc. pc\<lparr>addedCandidates := addedCandidates pc @ [c]\<rparr>" i] assms
    by (simp add: links_wf_iff)
  moreover have "links_wf (s\<lparr>unhandled := es\<rparr>) = links_wf s" for es
    by (rule links_wf_same) simp_all
  ultimately show ?thesis
    using assms
    by (simp add: handleIceCandidate_def addIceCandidate_def split: option.splits)
qed

lemma wf_removePeer:
  assumes "links_wf s"
  shows "links_wf (removePeer u s)"
proof (cases "map_of (peers s) u")
  case None
  with assms show ?thesis by (simp add: removePeer_def)
next
  case (Some i)
  from assms have "i < length (connections s)"
    using map_of_SomeD [OF Some] by (auto simp: links_wf_iff wf_links_def)
  with wf_remove [of "peers s" "connections s" u i] assms Some show ?thesis
    by (simp add: links_wf_iff removePeer_def on_connection_def)
qed

lemma wf_cleanup: "links_wf (cleanup s)"
  by (simp add: links_wf_def peers_cleanup)

lemma wf_presence_sync: "links_wf s \<Longrightarrow> links_wf (presence_sync st s)"
  unfolding presence_sync_def
  by (induction st arbitrary: s) (auto simp: wf_notify)

lemma wf_presence_join: "links_wf s \<Longrightarrow> links_wf (presence_join ps s)"
  unfolding presence_join_def
  by (induction ps arbitrary: s) (auto simp: wf_createPeerConnection)

lemma wf_presence_leave: "links_wf s \<Longrightarrow> links_wf (presence_leave ps s)"
  unfolding presence_leave_def
  by (induction ps arbitrary: s) (auto simp: wf_notify wf_removePeer)

lemma wf_on_broadcast: "links_wf s \<Longrightarrow> links_wf (on_broadcast m s)"
  by (cases m) (simp_all add: wf_handleOffer wf_handleAnswer wf_handleIceCandidate)

lemma wf_rest:
  "links_wf (subscribe_status st now s) = links_wf s"
  "links_wf (ontrack i streams s) = links_wf s"
  "links_wf (onicecandidate i c s) = links_wf s"
  "links_wf (toggleVideo en s) = links_wf s"
  "links_wf (toggleAudio en s) = links_wf s"
  by (rule links_wf_same;
      simp add: subscribe_status_def ontrack_def onicecandidate_def toggleVideo_def
        toggleAudio_def notify_stream_def channel_send_def split: option.splits list.splits)+

lemma wf_step: "links_wf s \<Longrightarrow> links_wf (step e s)"
  by (cases e)
     (simp_all add: wf_presence_sync wf_presence_join wf_presence_leave wf_on_broadcast
        wf_rest wf_cleanup)

lemma wf_run: "links_wf s \<Longrightarrow> links_wf (run evs s)"
  unfolding run_def by (induction evs arbitrary: s) (simp_all add: wf_step)

lemma peers_map_well_formed:
  "links_wf (run evs (snd (initialize media (new_manager mid uid uname j l st))))"
  by (rule wf_run) (simp add: links_wf_def initialize_def new_manager_def split: sum.splits)

subsection \<open>One link per remote participant\<close>

text \<open>
  C1. The claim asks that a second join event for a participant who already has a link
  never leaves two live links for that participant. Evaluated on the code: after two join
  events for \<open>bob\<close>, the peers map of \<open>alice\<close> has the single entry of the second
  connection, yet the first connection was never closed, both connections are open towards
  \<open>bob\<close>, an offer went out for each, and \<^verbatim>\<open>cleanup\<close> later closes only the one in the map.
\<close>

theorem duplicate_join_keeps_first_connection_open:
  "peers (presence_join [present ''bob''] alice_calling_bob) = [(''bob'', 1)] \<and>
   live_links ''bob'' (presence_join [present ''bob''] alice_calling_bob) = [0, 1] \<and>
   outbox (presence_join [present ''bob''] alice_calling_bob) =
     [Offer ''alice'' ''bob'' offer_of_alice, Offer ''alice'' ''bob'' offer_of_alice] \<and>
   live_links ''bob'' (cleanup (presence_join [present ''bob''] alice_calling_bob)) = [0]"
  by (simp add: session_defs live_links_def Let_def upt_rec)

subsection \<open>Discovery notifications\<close>

text \<open>
  C3. The claim asks for exactly one \<^verbatim>\<open>onParticipantJoined\<close> per remote participant, also
  from the join listener. Evaluated on the code: the join event of \<open>bob\<close> makes \<open>alice\<close>
  create a link and send an offer without any notification, the snapshot that follows adds
  none because \<open>bob\<close> now has a link, and a participant without a link is announced again
  by every snapshot that lists it.
\<close>

theorem join_listener_gives_no_participant_joined:
  "notifications alice_calling_bob = [] \<and>
   peers alice_calling_bob = [(''bob'', 0)] \<and>
   notifications (presence_sync snapshot_alice_bob alice_calling_bob) = [] \<and>
   notifications (presence_sync snapshot_alice_bob (presence_sync snapshot_alice_bob bob)) =
     [ParticipantJoined ''alice'' ''alice'', ParticipantJoined ''alice'' ''alice'']"
  by (simp add: session_defs Let_def)

subsection \<open>Early candidates\<close>

text \<open>
  The claim C4 as stated fails in both of its cases. A candidate from \<open>bob\<close> that reaches
  \<open>alice\<close> before she has a link for him changes nothing, and once his offer has been
  applied the link holds no candidate. A candidate that reaches her while her link for him
  has no remote description is rejected by the transport: the rejection escapes unhandled,
  nothing is kept, and once his answer has been applied the link holds no candidate either.
\<close>

theorem early_candidate_is_lost:
  "on_broadcast (IceCandidate ''bob'' ''alice'' ''candidate:1'') alice = alice \<and>
   map remoteDescription
     (connections (on_broadcast (Offer ''bob'' ''alice'' offer_of_bob)
        (on_broadcast (IceCandidate ''bob'' ''alice'' ''candidate:1'') alice))) =
     [Some offer_of_bob] \<and>
   map addedCandidates
     (connections (on_broadcast (Offer ''bob'' ''alice'' offer_of_bob)
        (on_broadcast (IceCandidate ''bob'' ''alice'' ''candidate:1'') alice))) = [[]] \<and>
   map remoteDescription (connections alice_calling_bob) = [None] \<and>
   connections (on_broadcast (IceCandidate ''bob'' ''alice'' ''candidate:1'') alice_calling_bob) =
     connections alice_calling_bob \<and>
   unhandled (on_broadcast (IceCandidate ''bob'' ''alice'' ''candidate:1'') alice_calling_bob) =
     [InvalidStateError ''remote description is null''] \<and>
   map signalingState
     (connections (on_broadcast (Answer ''bob'' ''alice'' answer_of_bob)
        (on_broadcast (IceCandidate ''bob'' ''alice'' ''candidate:1'') alice_calling_bob))) =
     [Stable] \<and>
   map addedCandidates
     (connections (on_broadcast (Answer ''bob'' ''alice'' answer_of_bob)
        (on_broadcast (IceCandidate ''bob'' ''alice'' ''candidate:1'') alice_calling_bob))) = [[]]"
  by (simp add: session_defs signalingState_def Let_def)

text \<open>
  C4, amended. An ICE candidate addressed to self is applied to the connection of its
  sender exactly when, at its arrival, the peers map has an entry for the sender and that
  connection is open and already has a remote description. The manager keeps no queue:
  with no entry the candidate is dropped with the state unchanged, and with an entry whose
  connection has no remote description yet the rejection of \<^verbatim>\<open>addIceCandidate\<close> escapes
  unhandled and the candidate is not kept for later.
\<close>

theorem candidate_applied_only_after_remote_description:
  "(map_of (peers s) u = None \<longrightarrow> on_broadcast (IceCandidate u (userId s) c) s = s) \<and>
   (map_of (peers s) u = Some i \<and> i < length (connections s) \<and>
    \<not> closed (connections s ! i) \<and> remoteDescription (connections s ! i) = None \<longrightarrow>
      on_broadcast (IceCandidate u (userId s) c) s =
        s\<lparr>unhandled := unhandled s @ [InvalidStateError ''remote description is null'']\<rparr>) \<and>
   (map_of (peers s) u = Some i \<and> i < length (connections s) \<and>
    \<not> closed (connections s ! i) \<and> remoteDescription (connections s ! i) \<noteq> None \<longrightarrow>
      on_broadcast (IceCandidate u (userId s) c) s =
        s\<lparr>connections := (connections s)
             [i := (connections s ! i)\<lparr>addedCandidates :=
                      addedCandidates (connections s ! i) @ [c]\<rparr>]\<rparr>)"
  by (simp add: handleIceCandidate_def addIceCandidate_def)

theorem candidate_applied_only_after_remote_description_witness:
  "map_of (peers alice) ''bob'' = None \<and>
   on_broadcast (IceCandidate ''bob'' (userId alice) ''candidate:1'') alice = alice \<and>
   map_of (peers alice_calling_bob) ''bob'' = Some 0 \<and>
   0 < length (connections alice_calling_bob) \<and>
   \<not> closed (connections alice_calling_bob ! 0) \<and>
   remoteDescription (connections alice_calling_bob ! 0) = None \<and>
   on_broadcast (IceCandidate ''bob'' (userId alice_calling_bob) ''candidate:1'') alice_calling_bob =
     alice_calling_bob\<lparr>unhandled := unhandled alice_calling_bob @
                                      [InvalidStateError ''remote description is null'']\<rparr> \<and>
   map_of (peers alice_answered_by_bob) ''bob'' = Some 0 \<and>
   0 < length (connections alice_answered_by_bob) \<and>
   \<not> closed (connections alice_answered_by_bob ! 0) \<and>
   remoteDescription (connections alice_answered_by_bob ! 0) = Some answer_of_bob \<and>
   map addedCandidates
     (connections (on_broadcast (IceCandidate ''bob'' (userId alice_answered_by_bob) ''candidate:1'')
        alice_answered_by_bob)) = [[''candidate:1'']]"
proof -
  have none: "map_of (peers alice) ''bob'' = None"
    by (simp add: session_defs)
  have calling: "map_of (peers alice_calling_bob) ''bob'' = Some 0"
    "connections alice_calling_bob =
      [\<lparr>remoteUserId = ''bob'', senders = [0, 1], localDescription = Some offer_of_alice,
         remoteDescription = None, addedCandidates = [], closed = False\<rparr>]"
    by (simp_all add: session_defs Let_def)
  have answered: "map_of (peers alice_answered_by_bob) ''bob'' = Some 0"
    "connections alice_answered_by_bob =
      [\<lparr>remoteUserId = ''bob'', senders = [0, 1], localDescription = Some offer_of_alice,
         remoteDescription = Some answer_of_bob, addedCandidates = [], closed = False\<rparr>]"
    by (simp_all add: session_defs Let_def)
  show ?thesis
    using candidate_applied_only_after_remote_description [of alice "''bob''" "''candidate:1''" 0]
      candidate_applied_only_after_remote_description
        [of alice_calling_bob "''bob''" "''candidate:1''" 0]
      candidate_applied_only_after_remote_description
        [of alice_answered_by_bob "''bob''" "''candidate:1''" 0]
    by (simp add: none calling answered)
qed

subsection \<open>Late messages after teardown\<close>

text \<open>
  The claim C5 as stated fails for an offer: after \<^verbatim>\<open>cleanup\<close> the peers map is empty, and
  a late offer from \<open>bob\<close> makes the listener build a new link, apply the offer to it and
  send an answer.
\<close>

theorem late_offer_after_cleanup_creates_link:
  "peers (cleanup alice_calling_bob) = [] \<and>
   peers (on_broadcast (Offer ''bob'' ''alice'' offer_of_bob) (cleanup alice_calling_bob)) =
     [(''bob'', 1)] \<and>
   map remoteDescription
     (connections (on_broadcast (Offer ''bob'' ''alice'' offer_of_bob) (cleanup alice_calling_bob))) =
     [None, Some offer_of_bob] \<and>
   outbox (on_broadcast (Offer ''bob'' ''alice'' offer_of_bob) (cleanup alice_calling_bob)) =
     outbox (cleanup alice_calling_bob) @
       [Answer ''alice'' ''bob'' \<lparr>sdp_kind = AnswerSdp, sdp_media = [0, 1]\<rparr>]"
  by (simp add: session_defs Let_def)

text \<open>
  C5, amended. After \<^verbatim>\<open>cleanup\<close> a late answer or a late ICE candidate, from any sender
  and whoever it is addressed to, leaves the whole state as \<^verbatim>\<open>cleanup\<close> left it: no link,
  no description applied, nothing sent, no error. (A late offer is not covered.)
\<close>

theorem late_answer_or_candidate_after_cleanup:
  "on_broadcast (Answer u t a) (cleanup s) = cleanup s \<and>
   on_broadcast (IceCandidate u t c) (cleanup s) = cleanup s \<and>
   handleAnswer u a (cleanup s) = cleanup s \<and>
   handleIceCandidate u c (cleanup s) = cleanup s"
  by (simp add: handleAnswer_def handleIceCandidate_def peers_cleanup)

subsection \<open>Two participants joining in order\<close>

text \<open>The states of the scenario, one listener at a time.\<close>

lemma joined_eq:
  "joined mid u ms =
     \<lparr> localStream = Some ms, peers = [], meetingId = mid, userId = u, userName = u,
       channel = Some \<lparr> topic = ''meeting:'' @ mid,
                         listeners = [(''presence'', ''sync''), (''presence'', ''join''),
                                      (''presence'', ''leave''), (''broadcast'', ''offer''),
                                      (''broadcast'', ''answer''),
                                      (''broadcast'', ''ice-candidate'')],
                         subscribed = True, tracked = Some (present u), sent = [],
                         removed = False \<rparr>,
       onParticipantJoined = True, onParticipantLeft = True, onStreamAdded = True,
       connections = [], notifications = [], unhandled = [] \<rparr>"
  by (simp add: joined_def subscribe_status_def initialize_def new_manager_def present_def)

lemma first_alone:
  "presence_sync [(a, present a, [])] (presence_join [present a] (joined mid a camA)) =
   joined mid a camA"
  by (simp add: joined_eq presence_sync_def presence_join_def present_simps)

lemma second_snapshot:
  "a \<noteq> b \<Longrightarrow>
   presence_sync [(a, present a, []), (b, present b, [])]
     (presence_join [present b] (joined mid b camB)) =
   (joined mid b camB)\<lparr>notifications := [ParticipantJoined a a]\<rparr>"
  by (simp add: joined_eq presence_sync_def presence_join_def present_simps notify_joined_def)

lemma first_calls:
  "a \<noteq> b \<Longrightarrow>
   presence_sync [(a, present a, []), (b, present b, [])]
     (presence_join [present b] (joined mid a camA)) =
   (joined mid a camA)
     \<lparr>peers := [(b, 0)],
      channel := map_option (sent_update (\<lambda>_. [Offer a b \<lparr>sdp_kind = OfferSdp, sdp_media = map track_id camA\<rparr>]))
                   (channel (joined mid a camA)),
      connections := [\<lparr> remoteUserId = b, senders = map track_id camA,
            localDescription = Some \<lparr>sdp_kind = OfferSdp, sdp_media = map track_id camA\<rparr>,
            remoteDescription = None, addedCandidates = [], closed = False \<rparr>]\<rparr>"
  by (simp add: joined_eq presence_sync_def presence_join_def present_simps
      createPeerConnection_def Let_def getTracks_def createOffer_def on_connection_def
      setLocalDescription_def channel_send_def)

lemma second_answers:
  "a \<noteq> b \<Longrightarrow>
   on_broadcast (Offer a b offer) ((joined mid b camB)\<lparr>notifications := ns\<rparr>) =
   (joined mid b camB)
     \<lparr>peers := [(a, 0)],
      channel := map_option (sent_update (\<lambda>_. [Answer b a \<lparr>sdp_kind = AnswerSdp, sdp_media = map track_id camB\<rparr>]))
                   (channel (joined mid b camB)),
      connections := [\<lparr> remoteUserId = a, senders = map track_id camB,
            localDescription = Some \<lparr>sdp_kind = AnswerSdp, sdp_media = map track_id camB\<rparr>,
            remoteDescription = Some offer, addedCandidates = [], closed = False \<rparr>],
      notifications := ns\<rparr>"
  by (simp add: joined_eq handleOffer_def
      createPeerConnection_def Let_def getTracks_def createAnswer_def 
      setLocalDescription_def setRemoteDescription_def channel_send_def)

lemma first_completes:
  "a \<noteq> b \<Longrightarrow>
   on_broadcast (Answer b a answer)
     ((joined mid a camA)
        \<lparr>peers := [(b, 0)], channel := ch,
         connections := [\<lparr> remoteUserId = b, senders = sa, localDescription = ld,
            remoteDescription = None, addedCandidates = [], closed = False \<rparr>]\<rparr>) =
   (joined mid a camA)
     \<lparr>peers := [(b, 0)], channel := ch,
      connections := [\<lparr> remoteUserId = b, senders = sa, localDescription = ld,
            remoteDescription = Some answer, addedCandidates = [], closed = False \<rparr>]\<rparr>"
  by (simp add: joined_eq handleAnswer_def on_connection_def setRemoteDescription_def)

lemma join_in_order_result:
  assumes "a \<noteq> b"
  shows "join_in_order mid a b camA camB =
    ((joined mid a camA)
       \<lparr>peers := [(b, 0)],
        channel := map_option (sent_update (\<lambda>_. [Offer a b \<lparr>sdp_kind = OfferSdp, sdp_media = map track_id camA\<rparr>]))
                   (channel (joined mid a camA)),
        connections := [\<lparr> remoteUserId = b, senders = map track_id camA,
            localDescription = Some \<lparr>sdp_kind = OfferSdp, sdp_media = map track_id camA\<rparr>,
            remoteDescription = Some \<lparr>sdp_kind = AnswerSdp, sdp_media = map track_id camB\<rparr>,
            addedCandidates = [], closed = False \<rparr>]\<rparr>,
     (joined mid b camB)
       \<lparr>peers := [(a, 0)],
        channel := map_option (sent_update (\<lambda>_. [Answer b a \<lparr>sdp_kind = AnswerSdp, sdp_media = map track_id camB\<rparr>]))
                   (channel (joined mid b camB)),
        connections := [\<lparr> remoteUserId = a, senders = map track_id camB,
            localDescription = Some \<lparr>sdp_kind = AnswerSdp, sdp_media = map track_id camB\<rparr>,
            remoteDescription = Some \<lparr>sdp_kind = OfferSdp, sdp_media = map track_id camA\<rparr>,
            addedCandidates = [], closed = False \<rparr>],
        notifications := [ParticipantJoined a a]\<rparr>)"
proof -
  let ?offer = "\<lparr>sdp_kind = OfferSdp, sdp_media = map track_id camA\<rparr>"
  let ?answer = "\<lparr>sdp_kind = AnswerSdp, sdp_media = map track_id camB\<rparr>"
  let ?both = "[(a, present a, []), (b, present b, [])]"
  let ?A2 = "presence_sync ?both (presence_join [present b] (joined mid a camA))"
  let ?B1 = "presence_sync ?both (presence_join [present b] (joined mid b camB))"
  have outA: "outbox ?A2 = [Offer a b ?offer]"
    by (simp only: first_calls [OF assms]) (simp add: outbox_def joined_eq)
  have B2: "fold on_broadcast (outbox ?A2) ?B1 =
      (joined mid b camB)
       \<lparr>peers := [(a, 0)],
        channel := map_option (sent_update (\<lambda>_. [Answer b a ?answer])) (channel (joined mid b camB)),
        connections := [\<lparr> remoteUserId = a, senders = map track_id camB,
            localDescription = Some ?answer, remoteDescription = Some ?offer,
            addedCandidates = [], closed = False \<rparr>],
        notifications := [ParticipantJoined a a]\<rparr>" (is "_ = ?B2")
    by (simp only: outA second_snapshot [OF assms] fold_simps id_apply comp_apply
        second_answers [OF assms])
  have outB: "outbox ?B2 = [Answer b a ?answer]"
    by (simp add: outbox_def joined_eq)
  have A3: "fold on_broadcast (outbox ?B2) ?A2 =
     (joined mid a camA)
       \<lparr>peers := [(b, 0)],
        channel := map_option (sent_update (\<lambda>_. [Offer a b ?offer])) (channel (joined mid a camA)),
        connections := [\<lparr> remoteUserId = b, senders = map track_id camA,
            localDescription = Some ?offer, remoteDescription = Some ?answer,
            addedCandidates = [], closed = False \<rparr>]\<rparr>"
    by (simp only: outB first_calls [OF assms] fold_simps id_apply comp_apply
        first_completes [OF assms])
  show ?thesis
    unfolding join_in_order_def Let_def first_alone B2 A3 ..
qed

text \<open>
  The claim C2 as stated fails on the direction of the offer: with \<open>alice\<close> in the meeting
  first and \<open>bob\<close> second, \<open>bob\<close> sends no offer, and the one offer of the pair goes from
  \<open>alice\<close> to \<open>bob\<close>.
\<close>

theorem second_joiner_sends_no_offer:
  "filter is_offer (outbox (snd (join_in_order ''m1'' ''alice'' ''bob'' (cam 0) (cam 2)))) = [] \<and>
   filter is_offer (outbox (fst (join_in_order ''m1'' ''alice'' ''bob'' (cam 0) (cam 2)))) =
     [Offer ''alice'' ''bob'' offer_of_alice]"
proof -
  have "''alice'' \<noteq> ''bob''" by simp
  from join_in_order_result [OF this, of "''m1''" "cam 0" "cam 2"] show ?thesis
    by (simp add: outbox_def joined_eq cam_def offer_of_alice_def)
qed

text \<open>
  C2, amended. For two participants \<open>a\<close> and \<open>b\<close> that join in the order \<open>a\<close>, then \<open>b\<close>,
  exactly one offer is sent for the pair, and it is sent from \<open>a\<close> to \<open>b\<close>: the join listener
  of the participant already present initiates, while the snapshot of the newcomer only
  reports \<open>a\<close> to its caller. \<open>b\<close> answers as responder, each side then holds one link,
  in state \<open>Stable\<close>, and when the transport of \<open>a\<close> delivers the stream of \<open>b\<close> on that
  link, \<^verbatim>\<open>onStreamAdded\<close> is called for \<open>b\<close> with it.
\<close>

theorem join_in_order_first_joiner_offers:
  assumes "a \<noteq> b"
  shows "filter is_offer (outbox (fst (join_in_order mid a b camA camB)) @
                         outbox (snd (join_in_order mid a b camA camB))) =
           [Offer a b \<lparr>sdp_kind = OfferSdp, sdp_media = map track_id camA\<rparr>] \<and>
         outbox (snd (join_in_order mid a b camA camB)) =
           [Answer b a \<lparr>sdp_kind = AnswerSdp, sdp_media = map track_id camB\<rparr>] \<and>
         notifications (snd (join_in_order mid a b camA camB)) = [ParticipantJoined a a] \<and>
         peers (fst (join_in_order mid a b camA camB)) = [(b, 0)] \<and>
         map signalingState (connections (fst (join_in_order mid a b camA camB))) = [Stable] \<and>
         peers (snd (join_in_order mid a b camA camB)) = [(a, 0)] \<and>
         map signalingState (connections (snd (join_in_order mid a b camA camB))) = [Stable] \<and>
         notifications (ontrack 0 [camB] (fst (join_in_order mid a b camA camB))) =
           notifications (fst (join_in_order mid a b camA camB)) @ [StreamAdded b camB]"
  by (simp only: join_in_order_result [OF assms])
     (simp add: outbox_def joined_eq signalingState_def ontrack_def notify_stream_def)

theorem join_in_order_first_joiner_offers_witness:
  "''alice'' \<noteq> ''bob'' \<and>
   filter is_offer (outbox (fst (join_in_order ''m1'' ''alice'' ''bob'' (cam 0) (cam 2))) @
                   outbox (snd (join_in_order ''m1'' ''alice'' ''bob'' (cam 0) (cam 2)))) =
     [Offer ''alice'' ''bob'' \<lparr>sdp_kind = OfferSdp, sdp_media = [0, 1]\<rparr>] \<and>
   map signalingState (connections (fst (join_in_order ''m1'' ''alice'' ''bob'' (cam 0) (cam 2)))) =
     [Stable] \<and>
   map signalingState (connections (snd (join_in_order ''m1'' ''alice'' ''bob'' (cam 0) (cam 2)))) =
     [Stable] \<and>
   notifications (ontrack 0 [cam 2] (fst (join_in_order ''m1'' ''alice'' ''bob'' (cam 0) (cam 2)))) =
     notifications (fst (join_in_order ''m1'' ''alice'' ''bob'' (cam 0) (cam 2))) @
       [StreamAdded ''bob'' (cam 2)]"
proof -
  have ne: "''alice'' \<noteq> ''bob''" by simp
  have ids: "map track_id (cam 0) = [0, 1]" by (simp add: cam_def)
  show ?thesis
    using ne join_in_order_first_joiner_offers [OF ne, of "''m1''" "cam 0" "cam 2", unfolded ids]
    by - (elim conjE, intro conjI; assumption)
qed

end
